theory Spec2Isabelle
  imports Complex_Main
begin

section \<open>Python values and exceptions\<close>

text \<open>
  The context of the agent is a Python dictionary whose values are whatever
  \<^verbatim>\<open>json.load\<close> produced or the code stored: \<^verbatim>\<open>None\<close>, booleans, integers, floats,
  strings, lists and dictionaries with string keys. A \<open>char\<close> stands for one character
  of a Python string; a float is given by its value, a real number (no code of the
  repository modelled here computes with the floats of the context).
\<close>

datatype pyval =
    PNone
  | PBool bool
  | PInt int
  | PFloat real
  | PStr string
  | PList "pyval list"
  | PDict "(string \<times> pyval) list"

text \<open>
  Instances of \<^verbatim>\<open>Exception\<close>, the class every \<^verbatim>\<open>except Exception\<close> clause of the
  source catches. \<open>OtherError\<close> is any other subclass (\<^verbatim>\<open>OSError\<close>,
  \<^verbatim>\<open>JSONDecodeError\<close>, ...) with its text.
\<close>

datatype exn =
    KeyError string
  | TypeError string
  | AttributeError string
  | ValueError string
  | OtherError string

text \<open>\<^verbatim>\<open>str(e)\<close>: a \<^verbatim>\<open>KeyError\<close> prints the repr of the missing key.\<close>

fun str_exn :: "exn \<Rightarrow> string" where
  "str_exn (KeyError k) = CHR 0x27 # k @ [CHR 0x27]"
| "str_exn (TypeError m) = m"
| "str_exn (AttributeError m) = m"
| "str_exn (ValueError m) = m"
| "str_exn (OtherError m) = m"

text \<open>Truth value of an object, as \<^verbatim>\<open>if x:\<close> tests it.\<close>

fun truthy :: "pyval \<Rightarrow> bool" where
  "truthy PNone = False"
| "truthy (PBool b) = b"
| "truthy (PInt n) = (n \<noteq> 0)"
| "truthy (PFloat r) = (r \<noteq> 0)"
| "truthy (PStr s) = (s \<noteq> [])"
| "truthy (PList xs) = (xs \<noteq> [])"
| "truthy (PDict kvs) = (kvs \<noteq> [])"

text \<open>\<^verbatim>\<open>len(x)\<close>.\<close>

fun py_len :: "pyval \<Rightarrow> exn + nat" where
  "py_len (PStr s) = Inr (length s)"
| "py_len (PList xs) = Inr (length xs)"
| "py_len (PDict kvs) = Inr (length kvs)"
| "py_len PNone = Inl (TypeError ''object of type 'NoneType' has no len()'')"
| "py_len (PBool b) = Inl (TypeError ''object of type 'bool' has no len()'')"
| "py_len (PInt n) = Inl (TypeError ''object of type 'int' has no len()'')"
| "py_len (PFloat r) = Inl (TypeError ''object of type 'float' has no len()'')"

text \<open>
  \<^verbatim>\<open>x[-n:]\<close>: the last \<open>n\<close> items of a string or list (all of them when there are
  fewer); a dictionary cannot be subscripted by a slice.
\<close>

fun py_slice_last :: "nat \<Rightarrow> pyval \<Rightarrow> exn + pyval" where
  "py_slice_last n (PStr s) = Inr (PStr (drop (length s - n) s))"
| "py_slice_last n (PList xs) = Inr (PList (drop (length xs - n) xs))"
| "py_slice_last n (PDict kvs) = Inl (TypeError ''unhashable type: slice'')"
| "py_slice_last n PNone = Inl (TypeError ''object is not subscriptable'')"
| "py_slice_last n (PBool b) = Inl (TypeError ''object is not subscriptable'')"
| "py_slice_last n (PInt i) = Inl (TypeError ''object is not subscriptable'')"
| "py_slice_last n (PFloat r) = Inl (TypeError ''object is not subscriptable'')"

text \<open>\<^verbatim>\<open>d[k]\<close> on a dictionary with string keys.\<close>

definition subscript :: "(string \<rightharpoonup> pyval) \<Rightarrow> string \<Rightarrow> exn + pyval" where
  "subscript d k = (case d k of None \<Rightarrow> Inl (KeyError k) | Some v \<Rightarrow> Inr v)"


section \<open>The context store (context\_manager.py)\<close>

text \<open>
  \<^verbatim>\<open>ContextManager.current_context\<close>. A method that can raise returns the exception
  (if any) together with the dictionary as the method left it: a mutation made before
  the exception stays. Logging is not modelled.
\<close>

type_synonym ctx = "string \<rightharpoonup> pyval"

definition initial_context :: ctx where
  "initial_context =
     [''system_state'' \<mapsto> PStr ''initializing'',
      ''last_update'' \<mapsto> PNone,
      ''active_tasks'' \<mapsto> PList [],
      ''pending_inputs'' \<mapsto> PList [],
      ''environment_data'' \<mapsto> PDict [],
      ''short_term_memory'' \<mapsto> PList []]"

definition update_environment_data :: "ctx \<Rightarrow> ctx" where
  "update_environment_data c = c"

definition max_items :: nat where
  "max_items = 100"

definition prune_short_term_memory :: "ctx \<Rightarrow> exn option \<times> ctx" where
  "prune_short_term_memory c =
     (case subscript c ''short_term_memory'' of
        Inl x \<Rightarrow> (Some x, c)
      | Inr m \<Rightarrow>
          (case py_len m of
             Inl x \<Rightarrow> (Some x, c)
           | Inr n \<Rightarrow>
               if n > max_items then
                 (case py_slice_last max_items m of
                    Inl x \<Rightarrow> (Some x, c)
                  | Inr m' \<Rightarrow> (None, c(''short_term_memory'' \<mapsto> m')))
               else (None, c)))"

text \<open>\<open>now\<close> is the text \<^verbatim>\<open>datetime.now().isoformat()\<close> returns at the call.\<close>

definition update :: "string \<Rightarrow> ctx \<Rightarrow> exn option \<times> ctx" where
  "update now c =
     prune_short_term_memory
       (update_environment_data (c(''last_update'' \<mapsto> PStr now)))"

definition memory_entry :: "string \<times> pyval \<Rightarrow> pyval" where
  "memory_entry call = PDict [(''timestamp'', PStr (fst call)), (''data'', snd call)]"

text \<open>
  \<^verbatim>\<open>self.current_context['short_term_memory'].append({...})\<close>: only a list has
  \<^verbatim>\<open>append\<close>.
\<close>

definition add_to_memory :: "string \<Rightarrow> pyval \<Rightarrow> ctx \<Rightarrow> exn option \<times> ctx" where
  "add_to_memory now item c =
     (case subscript c ''short_term_memory'' of
        Inl x \<Rightarrow> (Some x, c)
      | Inr (PList xs) \<Rightarrow>
          (None, c(''short_term_memory'' \<mapsto> PList (xs @ [memory_entry (now, item)])))
      | Inr _ \<Rightarrow> (Some (AttributeError ''object has no attribute append''), c))"

definition get_pending_inputs :: "ctx \<Rightarrow> (exn + pyval) \<times> ctx" where
  "get_pending_inputs c =
     (case subscript c ''pending_inputs'' of
        Inl x \<Rightarrow> (Inl x, c)
      | Inr inputs \<Rightarrow> (Inr inputs, c(''pending_inputs'' \<mapsto> PList [])))"

definition add_task :: "pyval \<Rightarrow> ctx \<Rightarrow> exn option \<times> ctx" where
  "add_task task c =
     (case subscript c ''active_tasks'' of
        Inl x \<Rightarrow> (Some x, c)
      | Inr (PList ts) \<Rightarrow> (None, c(''active_tasks'' \<mapsto> PList (ts @ [task])))
      | Inr _ \<Rightarrow> (Some (AttributeError ''object has no attribute append''), c))"

definition get_active_tasks :: "ctx \<Rightarrow> exn + pyval" where
  "get_active_tasks c = subscript c ''active_tasks''"

text \<open>
  A sequence of \<^verbatim>\<open>add_to_memory\<close> calls, each with the clock reading and the item of
  the call, made one after the other; an exception ends the sequence.
\<close>

fun add_all_to_memory :: "(string \<times> pyval) list \<Rightarrow> ctx \<Rightarrow> exn option \<times> ctx" where
  "add_all_to_memory [] c = (None, c)"
| "add_all_to_memory (call # calls) c =
     (case add_to_memory (fst call) (snd call) c of
        (Some x, c') \<Rightarrow> (Some x, c')
      | (None, c') \<Rightarrow> add_all_to_memory calls c')"

text \<open>The entries of the short-term memory when it is a list.\<close>

definition memory_of :: "ctx \<Rightarrow> pyval list" where
  "memory_of c = (case c ''short_term_memory'' of Some (PList xs) \<Rightarrow> xs | _ \<Rightarrow> [])"

subsection \<open>Loading and saving the context\<close>

text \<open>
  What the file system and \<^verbatim>\<open>json.load\<close> answer during \<^verbatim>\<open>load_initial_state\<close>:
  \<open>exists_result\<close> is the outcome of \<^verbatim>\<open>self.context_file.exists()\<close>, \<open>load_result\<close> that of
  opening the file and parsing it.
\<close>

record load_io =
  exists_result :: "exn + bool"
  load_result :: "exn + pyval"

text \<open>
  \<^verbatim>\<open>dict.update(other)\<close>, restricted to the string keys of the dictionary (no code reads
  any other key). A dictionary is merged key by key. Anything else is read as a sequence
  of key/value pairs: each element must itself be a sequence of length two (a list, a
  string of two characters, a dictionary with two keys) whose first item is hashable; the
  pairs before a bad element are already stored when the exception is raised.
\<close>

fun update_pair :: "pyval \<Rightarrow> exn + (pyval \<times> pyval)" where
  "update_pair (PList [k, v]) = Inr (k, v)"
| "update_pair (PStr [a, b]) = Inr (PStr [a], PStr [b])"
| "update_pair (PDict [(k1, v1), (k2, v2)]) = Inr (PStr k1, PStr k2)"
| "update_pair (PList xs) =
     Inl (ValueError ''dictionary update sequence element has the wrong length; 2 is required'')"
| "update_pair (PStr s) =
     Inl (ValueError ''dictionary update sequence element has the wrong length; 2 is required'')"
| "update_pair (PDict kvs) =
     Inl (ValueError ''dictionary update sequence element has the wrong length; 2 is required'')"
| "update_pair PNone =
     Inl (TypeError ''cannot convert dictionary update sequence element to a sequence'')"
| "update_pair (PBool b) =
     Inl (TypeError ''cannot convert dictionary update sequence element to a sequence'')"
| "update_pair (PInt n) =
     Inl (TypeError ''cannot convert dictionary update sequence element to a sequence'')"
| "update_pair (PFloat r) =
     Inl (TypeError ''cannot convert dictionary update sequence element to a sequence'')"

fun update_from_seq :: "ctx \<Rightarrow> pyval list \<Rightarrow> exn option \<times> ctx" where
  "update_from_seq c [] = (None, c)"
| "update_from_seq c (item # rest) =
     (case update_pair item of
        Inl x \<Rightarrow> (Some x, c)
      | Inr (PStr k, v) \<Rightarrow> update_from_seq (c(k \<mapsto> v)) rest
      | Inr (PList xs, v) \<Rightarrow> (Some (TypeError ''unhashable type: list''), c)
      | Inr (PDict kvs, v) \<Rightarrow> (Some (TypeError ''unhashable type: dict''), c)
      | Inr (_, v) \<Rightarrow> update_from_seq c rest)"

fun dict_update :: "ctx \<Rightarrow> pyval \<Rightarrow> exn option \<times> ctx" where
  "dict_update c (PDict kvs) = (None, foldl (\<lambda>m kv. m(fst kv \<mapsto> snd kv)) c kvs)"
| "dict_update c (PList items) = update_from_seq c items"
| "dict_update c (PStr s) = update_from_seq c (map (\<lambda>ch. PStr [ch]) s)"
| "dict_update c PNone = (Some (TypeError ''object is not iterable''), c)"
| "dict_update c (PBool b) = (Some (TypeError ''object is not iterable''), c)"
| "dict_update c (PInt n) = (Some (TypeError ''object is not iterable''), c)"
| "dict_update c (PFloat r) = (Some (TypeError ''object is not iterable''), c)"

text \<open>The statements inside the \<^verbatim>\<open>try\<close> of \<^verbatim>\<open>load_initial_state\<close>.\<close>

definition load_initial_state_try :: "load_io \<Rightarrow> ctx \<Rightarrow> exn option \<times> ctx" where
  "load_initial_state_try io c =
     (case exists_result io of
        Inl x \<Rightarrow> (Some x, c)
      | Inr False \<Rightarrow> (None, c)
      | Inr True \<Rightarrow>
          (case load_result io of
             Inl x \<Rightarrow> (Some x, c)
           | Inr saved_context \<Rightarrow> dict_update c saved_context))"

text \<open>
  The whole method: the first component is the exception that leaves the method, the
  handler of \<^verbatim>\<open>except Exception\<close> only logs.
\<close>

definition load_initial_state :: "load_io \<Rightarrow> ctx \<Rightarrow> exn option \<times> ctx" where
  "load_initial_state io c =
     (case load_initial_state_try io c of
        (Some x, c') \<Rightarrow> (None, c')
      | (None, c') \<Rightarrow> (None, c'))"

text \<open>
  \<^verbatim>\<open>save_state\<close>: \<open>mkdir_result\<close> is the outcome of creating the directory, \<open>dump_result\<close> that
  of opening the file for writing and \<^verbatim>\<open>json.dump\<close>.
\<close>

record save_io =
  mkdir_result :: "exn option"
  dump_result :: "exn option"

definition save_state_try :: "save_io \<Rightarrow> ctx \<Rightarrow> exn option \<times> ctx" where
  "save_state_try io c =
     (case mkdir_result io of
        Some x \<Rightarrow> (Some x, c)
      | None \<Rightarrow> (dump_result io, c))"

definition save_state :: "save_io \<Rightarrow> ctx \<Rightarrow> exn option \<times> ctx" where
  "save_state io c =
     (case save_state_try io c of
        (Some x, c') \<Rightarrow> (None, c')
      | (None, c') \<Rightarrow> (None, c'))"


section \<open>The agent loop (agent\_loop.py)\<close>

text \<open>
  \<^verbatim>\<open>VaderLoop\<close> with the context manager it holds (\<open>cm\<close>). Clock readings and
  durations are Python floats, IEEE doubles, each given by its value. \<open>slept\<close> records the
  arguments of the calls of \<^verbatim>\<open>time.sleep\<close>, oldest first.
\<close>

record vader_loop =
  running :: bool
  cycle_count :: int
  last_cycle_time :: real
  cm :: ctx
  slept :: "real list"

definition new_loop :: "ctx \<Rightarrow> vader_loop" where
  "new_loop c =
     \<lparr>running = False, cycle_count = 0, last_cycle_time = 0, cm = c, slept = []\<rparr>"

text \<open>
  What the outside world answers during one pass of the loop: the two readings of
  \<^verbatim>\<open>time.time()\<close>, the text of \<^verbatim>\<open>datetime.now().isoformat()\<close>, and whether
  \<^verbatim>\<open>time.sleep\<close> raised.
\<close>

record cycle_env =
  time_start :: real
  now_iso :: string
  time_end :: real
  sleep_raises :: "exn option"

text \<open>
  The float literal \<^verbatim>\<open>0.1\<close> is the double nearest to one tenth; comparing two doubles is
  exact. The subtraction of doubles rounds its result: it is the parameter \<open>fsub\<close> of
  the functions below, which fix nothing about it.
\<close>

definition double_tenth :: real where
  "double_tenth = 3602879701896397 / 36028797018963968"

text \<open>\<^verbatim>\<open>inputs.items()\<close> exists for a dictionary only; the loop over the items logs.\<close>

fun process_inputs :: "pyval \<Rightarrow> exn option" where
  "process_inputs (PDict kvs) = None"
| "process_inputs (PList xs) = Some (AttributeError ''list object has no attribute items'')"
| "process_inputs (PStr s) = Some (AttributeError ''str object has no attribute items'')"
| "process_inputs (PInt n) = Some (AttributeError ''int object has no attribute items'')"
| "process_inputs (PFloat r) = Some (AttributeError ''float object has no attribute items'')"
| "process_inputs (PBool b) = Some (AttributeError ''bool object has no attribute items'')"
| "process_inputs PNone = Some (AttributeError ''NoneType object has no attribute items'')"

definition determine_next_action :: "vader_loop \<Rightarrow> pyval" where
  "determine_next_action v = PNone"

definition execute_action :: "pyval \<Rightarrow> vader_loop \<Rightarrow> vader_loop" where
  "execute_action action v = v"

definition execute_cycle ::
    "(real \<Rightarrow> real \<Rightarrow> real) \<Rightarrow> cycle_env \<Rightarrow> vader_loop \<Rightarrow> exn option \<times> vader_loop" where
  "execute_cycle fsub e v =
     (let cycle_start = time_start e;
          v1 = v\<lparr>cycle_count := cycle_count v + 1\<rparr>
      in case update (now_iso e) (cm v1) of
           (Some x, c1) \<Rightarrow> (Some x, v1\<lparr>cm := c1\<rparr>)
         | (None, c1) \<Rightarrow>
             (case get_pending_inputs c1 of
                (Inl x, c2) \<Rightarrow> (Some x, v1\<lparr>cm := c2\<rparr>)
              | (Inr inputs, c2) \<Rightarrow>
                  (case (if truthy inputs then process_inputs inputs else None) of
                     Some x \<Rightarrow> (Some x, v1\<lparr>cm := c2\<rparr>)
                   | None \<Rightarrow>
                       (let v2 = v1\<lparr>cm := c2\<rparr>;
                            next_action = determine_next_action v2;
                            v3 = (if truthy next_action then execute_action next_action v2
                                  else v2)
                        in (None, v3\<lparr>last_cycle_time := fsub (time_end e) cycle_start\<rparr>)))))"

definition manage_cycle_timing ::
    "(real \<Rightarrow> real \<Rightarrow> real) \<Rightarrow> cycle_env \<Rightarrow> vader_loop \<Rightarrow> exn option \<times> vader_loop" where
  "manage_cycle_timing fsub e v =
     (if last_cycle_time v < double_tenth then
        (sleep_raises e, v\<lparr>slept := slept v @ [fsub double_tenth (last_cycle_time v)]\<rparr>)
      else (None, v))"

text \<open>One pass of the \<^verbatim>\<open>while\<close> body of \<^verbatim>\<open>run\<close>, with its \<^verbatim>\<open>try\<close>/\<^verbatim>\<open>except\<close>.\<close>

definition loop_body ::
    "(real \<Rightarrow> real \<Rightarrow> real) \<Rightarrow> cycle_env \<Rightarrow> vader_loop \<Rightarrow> vader_loop" where
  "loop_body fsub e v =
     (case execute_cycle fsub e v of
        (Some x, v1) \<Rightarrow> v1\<lparr>running := False\<rparr>
      | (None, v1) \<Rightarrow>
          (case manage_cycle_timing fsub e v1 of
             (Some x, v2) \<Rightarrow> v2\<lparr>running := False\<rparr>
           | (None, v2) \<Rightarrow> v2))"

text \<open>
  \<^verbatim>\<open>while self.running\<close>: the list holds what the world answers in each coming pass.
  The loop returns when \<open>running\<close> is false; while it is true and no answer is left,
  the model has no result (\<open>None\<close>).
\<close>

fun run_loop ::
    "(real \<Rightarrow> real \<Rightarrow> real) \<Rightarrow> cycle_env list \<Rightarrow> vader_loop \<Rightarrow> vader_loop option" where
  "run_loop fsub [] v = (if running v then None else Some v)"
| "run_loop fsub (e # es) v =
     (if running v then run_loop fsub es (loop_body fsub e v) else Some v)"

definition run ::
    "(real \<Rightarrow> real \<Rightarrow> real) \<Rightarrow> cycle_env list \<Rightarrow> vader_loop \<Rightarrow> vader_loop option" where
  "run fsub es v = run_loop fsub es (v\<lparr>running := True\<rparr>)"

definition stop :: "vader_loop \<Rightarrow> vader_loop" where
  "stop v = v\<lparr>running := False\<rparr>"


section \<open>Skill dispatchers\<close>

text \<open>
  Every \<^verbatim>\<open>execute(operation, params)\<close> returns a Python object: a result dictionary, or
  \<^verbatim>\<open>None\<close> when the method ends without a \<^verbatim>\<open>return\<close>. \<open>params\<close> is a dictionary
  with string keys. The statements inside a \<^verbatim>\<open>try\<close> are a function of their own
  (\<open>..._try\<close>) whose result is the exception raised there or the value returned.
\<close>

definition error_result :: "string \<Rightarrow> pyval" where
  "error_result msg = PDict [(''status'', PStr ''error''), (''message'', PStr msg)]"

definition and_then :: "exn + 'a \<Rightarrow> ('a \<Rightarrow> exn + 'b) \<Rightarrow> exn + 'b" where
  "and_then r f = (case r of Inl x \<Rightarrow> Inl x | Inr a \<Rightarrow> f a)"

text \<open>\<^verbatim>\<open>params.get(k)\<close>.\<close>

definition dict_get :: "(string \<rightharpoonup> pyval) \<Rightarrow> string \<Rightarrow> pyval" where
  "dict_get d k = (case d k of None \<Rightarrow> PNone | Some v \<Rightarrow> v)"

subsection \<open>file\_manager.py\<close>










subsection \<open>self\_optimizer.py\<close>

text \<open>
  The methods \<^verbatim>\<open>SelfOptimizer\<close> calls on itself and does not define (the class ends with
  "Add helper methods for specific metric collection and optimization"): each is taken as
  given, with the exception it may raise. In the class as it stands every such call raises
  \<^verbatim>\<open>AttributeError\<close> (\<open>undefined_helpers\<close>).
\<close>

record optimizer_helpers =
  get_memory_usage :: "exn + pyval"
  get_response_times :: "exn + pyval"
  get_error_rates :: "exn + pyval"
  get_skill_usage_stats :: "exn + pyval"
  optimize_for_metric :: "pyval \<Rightarrow> pyval \<Rightarrow> exn + pyval list"
  create_general_optimizations :: "pyval \<Rightarrow> exn + pyval list"
  apply_single_optimization :: "pyval \<Rightarrow> exn option"
  compare_with_history :: "pyval \<Rightarrow> exn + pyval"
  identify_bottlenecks :: "pyval \<Rightarrow> exn + pyval"

definition no_attribute :: "string \<Rightarrow> exn" where
  "no_attribute name =
     AttributeError (CHR 0x27 # ''SelfOptimizer'' @ CHR 0x27 # '' object has no attribute ''
       @ CHR 0x27 # name @ [CHR 0x27])"

definition undefined_helpers :: optimizer_helpers where
  "undefined_helpers =
     \<lparr>get_memory_usage = Inl (no_attribute ''_get_memory_usage''),
      get_response_times = Inl (no_attribute ''_get_response_times''),
      get_error_rates = Inl (no_attribute ''_get_error_rates''),
      get_skill_usage_stats = Inl (no_attribute ''_get_skill_usage_stats''),
      optimize_for_metric = (\<lambda>t m. Inl (no_attribute ''_optimize_for_metric'')),
      create_general_optimizations =
        (\<lambda>m. Inl (no_attribute ''_create_general_optimizations'')),
      apply_single_optimization = (\<lambda>p. Some (no_attribute ''_apply_single_optimization'')),
      compare_with_history = (\<lambda>m. Inl (no_attribute ''_compare_with_history'')),
      identify_bottlenecks = (\<lambda>m. Inl (no_attribute ''_identify_bottlenecks''))\<rparr>"

definition collect_metrics :: "optimizer_helpers \<Rightarrow> exn + pyval" where
  "collect_metrics h =
     and_then (get_memory_usage h) (\<lambda>mu.
     and_then (get_response_times h) (\<lambda>rt.
     and_then (get_error_rates h) (\<lambda>er.
     and_then (get_skill_usage_stats h) (\<lambda>su.
       Inr (PDict [(''memory_usage'', mu), (''response_times'', rt),
                   (''error_rates'', er), (''skill_usage'', su)])))))"

definition create_optimization_plan ::
    "optimizer_helpers \<Rightarrow> pyval \<Rightarrow> pyval \<Rightarrow> exn + pyval list" where
  "create_optimization_plan h metrics target_metric =
     (if truthy target_metric then optimize_for_metric h target_metric metrics
      else create_general_optimizations h metrics)"

text \<open>\<open>history\<close> is \<^verbatim>\<open>self.optimization_history\<close>.\<close>

fun apply_optimizations :: "optimizer_helpers \<Rightarrow> pyval list \<Rightarrow> pyval list \<Rightarrow> pyval list" where
  "apply_optimizations h [] history = history"
| "apply_optimizations h (optimization # plan) history =
     (case apply_single_optimization h optimization of
        None \<Rightarrow>
          apply_optimizations h plan
            (history @ [PDict [(''optimization'', optimization), (''result'', PStr ''success'')]])
      | Some x \<Rightarrow>
          apply_optimizations h plan
            (history @ [PDict [(''optimization'', optimization), (''result'', PStr ''failed''),
                               (''error'', PStr (str_exn x))]]))"

text \<open>
  The statements inside the \<^verbatim>\<open>try\<close> of \<^verbatim>\<open>optimize_system\<close>; the history is returned as
  the statements left it.
\<close>

definition optimize_system_try ::
    "optimizer_helpers \<Rightarrow> pyval \<Rightarrow> pyval list \<Rightarrow> (exn + pyval) \<times> pyval list" where
  "optimize_system_try h target_metric history =
     (case collect_metrics h of
        Inl x \<Rightarrow> (Inl x, history)
      | Inr current_metrics \<Rightarrow>
          (case create_optimization_plan h current_metrics target_metric of
             Inl x \<Rightarrow> (Inl x, history)
           | Inr optimization_plan \<Rightarrow>
               (let history' = apply_optimizations h optimization_plan history
                in case collect_metrics h of
                     Inl x \<Rightarrow> (Inl x, history')
                   | Inr new_metrics \<Rightarrow>
                       (Inr (PDict [(''status'', PStr ''success''),
                                    (''optimizations_applied'', PList optimization_plan),
                                    (''new_metrics'', new_metrics)]), history'))))"

definition optimize_system ::
    "optimizer_helpers \<Rightarrow> pyval \<Rightarrow> pyval list \<Rightarrow> pyval \<times> pyval list" where
  "optimize_system h target_metric history =
     (case optimize_system_try h target_metric history of
        (Inl x, history') \<Rightarrow> (error_result (str_exn x), history')
      | (Inr r, history') \<Rightarrow> (r, history'))"

definition analyze_performance_try :: "optimizer_helpers \<Rightarrow> exn + pyval" where
  "analyze_performance_try h =
     and_then (collect_metrics h) (\<lambda>metrics.
     and_then (compare_with_history h metrics) (\<lambda>comparison.
     and_then (identify_bottlenecks h metrics) (\<lambda>bottlenecks.
       Inr (PDict [(''status'', PStr ''success''),
                   (''analysis'',
                    PDict [(''current_metrics'', metrics),
                           (''historical_comparison'', comparison),
                           (''bottlenecks'', bottlenecks)])]))))"

definition analyze_performance :: "optimizer_helpers \<Rightarrow> pyval" where
  "analyze_performance h =
     (case analyze_performance_try h of
        Inl x \<Rightarrow> error_result (str_exn x)
      | Inr r \<Rightarrow> r)"

definition generate_suggestions :: "pyval \<Rightarrow> pyval" where
  "generate_suggestions current_state = PList []"

definition suggest_improvements_try :: "optimizer_helpers \<Rightarrow> exn + pyval" where
  "suggest_improvements_try h =
     and_then (collect_metrics h) (\<lambda>current_state.
       Inr (PDict [(''status'', PStr ''success''),
                   (''suggestions'', generate_suggestions current_state)]))"

definition suggest_improvements :: "optimizer_helpers \<Rightarrow> pyval" where
  "suggest_improvements h =
     (case suggest_improvements_try h of
        Inl x \<Rightarrow> error_result (str_exn x)
      | Inr r \<Rightarrow> r)"

definition SelfOptimizer_try ::
    "optimizer_helpers \<Rightarrow> string \<Rightarrow> (string \<rightharpoonup> pyval) \<Rightarrow> pyval list
      \<Rightarrow> exn + (pyval \<times> pyval list)" where
  "SelfOptimizer_try h operation params history =
     (if operation = ''optimize'' then
        Inr (optimize_system h (dict_get params ''target_metric'') history)
      else if operation = ''analyze_performance'' then Inr (analyze_performance h, history)
      else if operation = ''suggest_improvements'' then Inr (suggest_improvements h, history)
      else Inr (PNone, history))"

definition SelfOptimizer_execute ::
    "optimizer_helpers \<Rightarrow> string \<Rightarrow> (string \<rightharpoonup> pyval) \<Rightarrow> pyval list
      \<Rightarrow> pyval \<times> pyval list" where
  "SelfOptimizer_execute h operation params history =
     (case SelfOptimizer_try h operation params history of
        Inl x \<Rightarrow> (error_result (str_exn x), history)
      | Inr r \<Rightarrow> r)"

subsection \<open>base\_commands.py: WebScraper\<close>

text \<open>
  The HTTP session and the HTML parser: \<open>session_get\<close> answers the text and status code of
  the response, \<open>soup_text\<close> and \<open>soup_links\<close> what BeautifulSoup extracts.
\<close>

record scraper_io =
  session_get :: "pyval \<Rightarrow> exn + (string \<times> int)"
  soup_text :: "pyval \<Rightarrow> exn + string"
  soup_links :: "pyval \<Rightarrow> exn + pyval list"

definition fetch_page :: "scraper_io \<Rightarrow> pyval \<Rightarrow> exn + pyval" where
  "fetch_page io url =
     (case session_get io url of
        Inl x \<Rightarrow> Inl x
      | Inr response \<Rightarrow>
          Inr (PDict [(''status'', PStr ''success''), (''html'', PStr (fst response)),
                      (''status_code'', PInt (snd response))]))"

definition extract_text :: "scraper_io \<Rightarrow> pyval \<Rightarrow> exn + pyval" where
  "extract_text io html =
     (case soup_text io html of
        Inl x \<Rightarrow> Inl x
      | Inr txt \<Rightarrow> Inr (PDict [(''status'', PStr ''success''), (''text'', PStr txt)]))"

definition extract_links :: "scraper_io \<Rightarrow> pyval \<Rightarrow> exn + pyval" where
  "extract_links io html =
     (case soup_links io html of
        Inl x \<Rightarrow> Inl x
      | Inr links \<Rightarrow> Inr (PDict [(''status'', PStr ''success''), (''links'', PList links)]))"

definition WebScraper_try :: "scraper_io \<Rightarrow> string \<Rightarrow> (string \<rightharpoonup> pyval) \<Rightarrow> exn + pyval" where
  "WebScraper_try io operation params =
     (if operation = ''fetch_page'' then and_then (subscript params ''url'') (fetch_page io)
      else if operation = ''extract_text'' then
        and_then (subscript params ''html'') (extract_text io)
      else if operation = ''extract_links'' then
        and_then (subscript params ''html'') (extract_links io)
      else Inr PNone)"

definition WebScraper_execute :: "scraper_io \<Rightarrow> string \<Rightarrow> (string \<rightharpoonup> pyval) \<Rightarrow> pyval" where
  "WebScraper_execute io operation params =
     (case WebScraper_try io operation params of
        Inl x \<Rightarrow> error_result (str_exn x)
      | Inr r \<Rightarrow> r)"

subsection \<open>config\_loader.py\<close>

text \<open>
  The four methods \<^verbatim>\<open>ConfigLoader.execute\<close> dispatches to read and write files and the
  cache of the loader; here each is given by its outcome on its arguments.
\<close>

record config_methods =
  load_config :: "pyval \<Rightarrow> exn + pyval"
  save_config :: "pyval \<Rightarrow> pyval \<Rightarrow> exn + pyval"
  list_configs :: "exn + pyval"
  validate_config :: "pyval \<Rightarrow> pyval \<Rightarrow> exn + pyval"

definition ConfigLoader_try ::
    "config_methods \<Rightarrow> string \<Rightarrow> (string \<rightharpoonup> pyval) \<Rightarrow> exn + pyval" where
  "ConfigLoader_try ms operation params =
     (if operation = ''load'' then and_then (subscript params ''name'') (load_config ms)
      else if operation = ''save'' then
        and_then (subscript params ''name'') (\<lambda>name.
          and_then (subscript params ''data'') (save_config ms name))
      else if operation = ''list'' then list_configs ms
      else if operation = ''validate'' then
        and_then (subscript params ''name'') (\<lambda>name.
          and_then (subscript params ''schema'') (validate_config ms name))
      else Inr PNone)"

definition ConfigLoader_execute ::
    "config_methods \<Rightarrow> string \<Rightarrow> (string \<rightharpoonup> pyval) \<Rightarrow> pyval" where
  "ConfigLoader_execute ms operation params =
     (case ConfigLoader_try ms operation params of
        Inl x \<Rightarrow> error_result (str_exn x)
      | Inr r \<Rightarrow> r)"

subsection \<open>mobile/model\_router.py\<close>

text \<open>
  \<^verbatim>\<open>available_models\<close> maps a model type to \<^verbatim>\<open>None\<close> or to a handler; a handler is
  given by what its \<^verbatim>\<open>process\<close> does with the request. \<open>route_request\<close> returns the lines
  it logs together with its result.
\<close>

type_synonym model_handler = "pyval \<Rightarrow> exn + pyval"

type_synonym models = "string \<rightharpoonup> model_handler option"

definition initial_models :: models where
  "initial_models = [''llm'' \<mapsto> None, ''vision'' \<mapsto> None]"

definition route_request :: "models \<Rightarrow> string \<Rightarrow> pyval \<Rightarrow> string list \<times> pyval" where
  "route_request available_models model_type request_data =
     (case available_models model_type of
        None \<Rightarrow> ([''Unknown model type: '' @ model_type], PNone)
      | Some None \<Rightarrow> ([''Model '' @ model_type @ '' not initialized''], PNone)
      | Some (Some model) \<Rightarrow>
          (case model request_data of
             Inl x \<Rightarrow> ([''Model processing error: '' @ str_exn x], PNone)
           | Inr r \<Rightarrow> ([], r)))"



section \<open>Notions used in the statements\<close>

text \<open>
  A pass of the loop completes when neither \<^verbatim>\<open>_execute_cycle\<close> nor
  \<^verbatim>\<open>_manage_cycle_timing\<close> raises.
\<close>

definition cycle_completes ::
    "(real \<Rightarrow> real \<Rightarrow> real) \<Rightarrow> cycle_env \<Rightarrow> vader_loop \<Rightarrow> bool" where
  "cycle_completes fsub e v =
     (fst (execute_cycle fsub e v) = None
      \<and> fst (manage_cycle_timing fsub e (snd (execute_cycle fsub e v))) = None)"

fun cycles_complete ::
    "(real \<Rightarrow> real \<Rightarrow> real) \<Rightarrow> cycle_env list \<Rightarrow> vader_loop \<Rightarrow> bool" where
  "cycles_complete fsub [] v = True"
| "cycles_complete fsub (e # es) v =
     (cycle_completes fsub e v \<and> cycles_complete fsub es (loop_body fsub e v))"

fun after_cycles ::
    "(real \<Rightarrow> real \<Rightarrow> real) \<Rightarrow> cycle_env list \<Rightarrow> vader_loop \<Rightarrow> vader_loop" where
  "after_cycles fsub [] v = v"
| "after_cycles fsub (e # es) v = after_cycles fsub es (loop_body fsub e v)"

text \<open>
  The Observe step is the call \<^verbatim>\<open>self.context.update()\<close>, the Pace step the call
  \<^verbatim>\<open>self._manage_cycle_timing()\<close>, reached when \<^verbatim>\<open>_execute_cycle\<close> has returned.
\<close>

definition observe_raises :: "cycle_env \<Rightarrow> vader_loop \<Rightarrow> bool" where
  "observe_raises e v = (fst (update (now_iso e) (cm v)) \<noteq> None)"

definition pace_raises ::
    "(real \<Rightarrow> real \<Rightarrow> real) \<Rightarrow> cycle_env \<Rightarrow> vader_loop \<Rightarrow> bool" where
  "pace_raises fsub e v =
     (fst (execute_cycle fsub e v) = None
      \<and> fst (manage_cycle_timing fsub e (snd (execute_cycle fsub e v))) \<noteq> None)"

text \<open>An exception raised by one of the steps 1 to 4, inside \<^verbatim>\<open>_execute_cycle\<close>.\<close>

definition cycle_raises ::
    "(real \<Rightarrow> real \<Rightarrow> real) \<Rightarrow> cycle_env \<Rightarrow> vader_loop \<Rightarrow> bool" where
  "cycle_raises fsub e v = (fst (execute_cycle fsub e v) \<noteq> None)"

subsection \<open>Concrete inputs\<close>

text \<open>
  The clock readings of the passes below are doubles whose difference (one 32nd) is a
  double again, and so is the difference of the double \<^verbatim>\<open>0.1\<close> and one 32nd: on these
  passes a float subtraction returns the difference itself.
\<close>

definition exact_sub :: "real \<Rightarrow> real \<Rightarrow> real" where
  "exact_sub a b = a - b"

text \<open>A context restored from a file holding \<^verbatim>\<open>{"pending_inputs": [{"cmd": "go"}]}\<close>.\<close>

definition queued_context :: ctx where
  "queued_context =
     initial_context(''pending_inputs'' \<mapsto> PList [PDict [(''cmd'', PStr ''go'')]])"



text \<open>A context restored from a file holding \<^verbatim>\<open>{"short_term_memory": null}\<close>.\<close>

definition observe_fault_loop :: vader_loop where
  "observe_fault_loop = new_loop (initial_context(''short_term_memory'' \<mapsto> PNone))"

definition quiet_cycle :: cycle_env where
  "quiet_cycle =
     \<lparr>time_start = 10, now_iso = ''2026-01-01T00:00:00'', time_end = 10.03125,
      sleep_raises = None\<rparr>"

definition interrupted_cycle :: cycle_env where
  "interrupted_cycle =
     \<lparr>time_start = 11, now_iso = ''2026-01-01T00:00:01'', time_end = 11.03125,
      sleep_raises = Some (OtherError ''sleep interrupted'')\<rparr>"

definition saved_blob :: load_io where
  "saved_blob =
     \<lparr>exists_result = Inr True,
      load_result = Inr (PDict [(''system_state'', PStr ''ready'')])\<rparr>"

definition full_disk :: save_io where
  "full_disk = \<lparr>mkdir_result = None, dump_result = Some (OtherError ''No space left on device'')\<rparr>"


definition offline_scraper_io :: scraper_io where
  "offline_scraper_io =
     \<lparr>session_get = (\<lambda>u. Inl (OtherError ''connection refused'')),
      soup_text = (\<lambda>h. Inr []),
      soup_links = (\<lambda>h. Inr [])\<rparr>"

definition empty_config_methods :: config_methods where
  "empty_config_methods =
     \<lparr>load_config = (\<lambda>n. Inr (error_result ''Config not found'')),
      save_config = (\<lambda>n d. Inr (error_result ''read-only'')),
      list_configs = Inr (PDict [(''status'', PStr ''success''), (''configs'', PList [])]),
      validate_config = (\<lambda>n sc. Inr (error_result ''Config not found''))\<rparr>"


section \<open>The bounded short-term memory\<close>

lemma add_all_to_memory_list:
  "c ''short_term_memory'' = Some (PList xs) \<Longrightarrow>
   add_all_to_memory calls c =
     (None, c(''short_term_memory'' \<mapsto> PList (xs @ map memory_entry calls)))"
proof (induction calls arbitrary: c xs)
  case Nil
  then show ?case by (simp add: map_upd_triv)
next
  case (Cons call calls)
  have step: "add_to_memory (fst call) (snd call) c =
      (None, c(''short_term_memory'' \<mapsto> PList (xs @ [memory_entry call])))"
    using Cons.prems by (simp add: add_to_memory_def subscript_def)
  have "add_all_to_memory calls (c(''short_term_memory'' \<mapsto> PList (xs @ [memory_entry call]))) =
      (None, (c(''short_term_memory'' \<mapsto> PList (xs @ [memory_entry call])))
         (''short_term_memory'' \<mapsto> PList ((xs @ [memory_entry call]) @ map memory_entry calls)))"
    by (rule Cons.IH) simp
  with step show ?case by (simp del: fun_upd_apply)
qed

lemma prune_short_term_memory_list:
  "c ''short_term_memory'' = Some (PList xs) \<Longrightarrow>
   prune_short_term_memory c =
     (None, c(''short_term_memory'' \<mapsto> PList (drop (length xs - 100) xs)))"
  by (simp add: prune_short_term_memory_def subscript_def max_items_def map_upd_triv)

lemma update_list:
  "c ''short_term_memory'' = Some (PList xs) \<Longrightarrow>
   update now c =
     (None, c(''last_update'' \<mapsto> PStr now,
              ''short_term_memory'' \<mapsto> PList (drop (length xs - 100) xs)))"
  by (simp add: update_def update_environment_data_def prune_short_term_memory_list)

lemma memory_of_upd [simp]:
  "memory_of (c(''short_term_memory'' \<mapsto> PList xs)) = xs"
  by (simp add: memory_of_def)


text \<open>
  C1 (as amended). \<^verbatim>\<open>add_to_memory\<close> appends one entry and does not prune: after a
  sequence of calls on a context whose memory is a list, the memory is the old list followed
  by one entry per call, in call order, whatever its length. The cap is applied by
  \<^verbatim>\<open>update\<close>: after the next \<^verbatim>\<open>update()\<close> the memory holds the most recent 100 of these
  entries, in the same order, and its length is at most 100.
\<close>

theorem memory_capped_at_update:
  assumes "c ''short_term_memory'' = Some (PList xs)"
  shows "fst (add_all_to_memory calls c) = None
    \<and> memory_of (snd (add_all_to_memory calls c)) = xs @ map memory_entry calls
    \<and> fst (update now (snd (add_all_to_memory calls c))) = None
    \<and> memory_of (snd (update now (snd (add_all_to_memory calls c)))) =
        drop (length (xs @ map memory_entry calls) - 100) (xs @ map memory_entry calls)
    \<and> length (memory_of (snd (update now (snd (add_all_to_memory calls c))))) \<le> 100"
proof -
  let ?all = "xs @ map memory_entry calls"
  let ?c1 = "c(''short_term_memory'' \<mapsto> PList ?all)"
  have a: "add_all_to_memory calls c = (None, ?c1)"
    using assms by (rule add_all_to_memory_list)
  have "?c1 ''short_term_memory'' = Some (PList ?all)" by simp
  then have u: "update now ?c1 =
      (None, ?c1(''last_update'' \<mapsto> PStr now,
                 ''short_term_memory'' \<mapsto> PList (drop (length ?all - 100) ?all)))"
    by (rule update_list)
  show ?thesis by (simp add: a u del: drop_append)
qed

theorem memory_capped_at_update_witness:
  "initial_context ''short_term_memory'' = Some (PList [])
   \<and> length (memory_of (snd (update ''t1''
        (snd (add_all_to_memory (replicate 101 (''t0'', PNone)) initial_context))))) = 100
   \<and> memory_of (snd (add_all_to_memory [(''t0'', PInt 1), (''t1'', PInt 2)] initial_context))
       = [memory_entry (''t0'', PInt 1), memory_entry (''t1'', PInt 2)]"
proof -
  have h: "initial_context ''short_term_memory'' = Some (PList [])"
    by (simp add: initial_context_def)
  show ?thesis
    using h memory_capped_at_update [of initial_context "[]" "replicate 101 (''t0'', PNone)" "''t1''"]
      memory_capped_at_update [of initial_context "[]" "[(''t0'', PInt 1), (''t1'', PInt 2)]" "''t1''"]
    by simp
qed


text \<open>
  C1 as stated fails: 101 calls of \<^verbatim>\<open>add_to_memory\<close> on the initial context leave 101
  entries in \<^verbatim>\<open>short_term_memory\<close>.
\<close>

theorem memory_exceeds_cap_after_append:
  "\<not> length (memory_of (snd (add_all_to_memory (replicate 101 (''t0'', PNone)) initial_context)))
       \<le> 100"
proof -
  have h: "initial_context ''short_term_memory'' = Some (PList [])"
    by (simp add: initial_context_def)
  show ?thesis
    by (simp add: add_all_to_memory_list [of initial_context "[]", OF h])
qed



section \<open>Draining the pending inputs\<close>

text \<open>
  C2. On every context that has the key \<^verbatim>\<open>pending_inputs\<close>, \<^verbatim>\<open>get_pending_inputs\<close>
  returns the value stored there without raising and leaves the empty list; a second call
  right after it returns the empty list; with nothing pending the call returns the empty
  list.
\<close>

theorem get_pending_inputs_drains:
  assumes "c ''pending_inputs'' = Some v"
  shows "get_pending_inputs c = (Inr v, c(''pending_inputs'' \<mapsto> PList []))
    \<and> get_pending_inputs (snd (get_pending_inputs c)) =
        (Inr (PList []), snd (get_pending_inputs c))
    \<and> (v = PList [] \<longrightarrow> get_pending_inputs c = (Inr (PList []), c))"
  using assms by (auto simp add: get_pending_inputs_def subscript_def map_upd_triv)

theorem get_pending_inputs_drains_witness:
  "(initial_context(''pending_inputs'' \<mapsto> PList [PDict [(''cmd'', PStr ''go'')]]))
       ''pending_inputs'' = Some (PList [PDict [(''cmd'', PStr ''go'')]])
   \<and> fst (get_pending_inputs
        (initial_context(''pending_inputs'' \<mapsto> PList [PDict [(''cmd'', PStr ''go'')]])))
       = Inr (PList [PDict [(''cmd'', PStr ''go'')]])
   \<and> fst (get_pending_inputs (snd (get_pending_inputs
        (initial_context(''pending_inputs'' \<mapsto> PList [PDict [(''cmd'', PStr ''go'')]])))))
       = Inr (PList [])"
proof -
  let ?v = "PList [PDict [(''cmd'', PStr ''go'')]]"
  let ?c = "initial_context(''pending_inputs'' \<mapsto> ?v)"
  have h: "?c ''pending_inputs'' = Some ?v" by simp
  note t = get_pending_inputs_drains [of ?c ?v, OF h]
  from t have first: "get_pending_inputs ?c = (Inr ?v, ?c(''pending_inputs'' \<mapsto> PList []))"
    by (rule conjunct1)
  from t have second: "get_pending_inputs (snd (get_pending_inputs ?c)) =
      (Inr (PList []), snd (get_pending_inputs ?c))"
    by blast
  have "fst (get_pending_inputs ?c) = Inr ?v"
    by (simp only: first fst_conv)
  moreover have "fst (get_pending_inputs (snd (get_pending_inputs ?c))) = Inr (PList [])"
    by (simp only: second fst_conv)
  ultimately show ?thesis using h by blast
qed


text \<open>
  The hypothesis of the theorem holds in every context the class reaches: no method of
  the context manager removes a key.
\<close>

lemma context_keys_persist:
  "dom c \<subseteq> dom (snd (update now c))"
  "dom c \<subseteq> dom (snd (add_to_memory now item c))"
  "dom c \<subseteq> dom (snd (get_pending_inputs c))"
  "dom c \<subseteq> dom (snd (add_task task c))"
  by (auto simp add: update_def update_environment_data_def prune_short_term_memory_def
      add_to_memory_def get_pending_inputs_def add_task_def
      split: sum.splits pyval.splits if_splits)


section \<open>Faults inside the skill dispatchers\<close>







section \<open>Routing to an unknown model\<close>

text \<open>
  C4 (as amended). For every model type that has no entry in \<^verbatim>\<open>available_models\<close>,
  \<^verbatim>\<open>route_request\<close> logs "Unknown model type: <name>" and returns \<^verbatim>\<open>None\<close>; it does
  not raise.
\<close>

theorem unknown_model_returns_None:
  "available_models model_type = None \<Longrightarrow>
   route_request available_models model_type request_data
     = ([''Unknown model type: '' @ model_type], PNone)"
  by (simp add: route_request_def)

theorem unknown_model_returns_None_witness:
  "initial_models ''translate'' = None
   \<and> route_request initial_models ''translate'' (PDict [(''text'', PStr ''hello'')])
     = ([''Unknown model type: translate''], PNone)"
proof -
  have h: "initial_models ''translate'' = None" by (simp add: initial_models_def)
  from unknown_model_returns_None
    [of initial_models "''translate''" "PDict [(''text'', PStr ''hello'')]", OF h] h
  show ?thesis by simp
qed

text \<open>
  C4 as stated fails: for the unregistered name \<^verbatim>\<open>unknown_cmd\<close> the result is
  \<^verbatim>\<open>None\<close>, not an error result with the message "unknown command: unknown\_cmd".
\<close>

theorem unknown_model_is_not_an_error_result:
  "snd (route_request initial_models ''unknown_cmd'' (PDict [])) = PNone
   \<and> snd (route_request initial_models ''unknown_cmd'' (PDict []))
       \<noteq> error_result ''unknown command: unknown_cmd''"
  by (simp add: route_request_def initial_models_def error_result_def)


section \<open>The loop: fatal faults, the Act step, pacing\<close>

lemma execute_cycle_running: "running (snd (execute_cycle fsub e v)) = running v"
  by (simp add: execute_cycle_def Let_def determine_next_action_def execute_action_def
      split: prod.splits option.splits sum.splits)

lemma manage_cycle_timing_running: "running (snd (manage_cycle_timing fsub e v)) = running v"
  by (simp add: manage_cycle_timing_def)

lemma loop_body_completes:
  assumes "cycle_completes fsub e v"
  shows "loop_body fsub e v = snd (manage_cycle_timing fsub e (snd (execute_cycle fsub e v)))"
proof -
  obtain r1 v1 where c: "execute_cycle fsub e v = (r1, v1)" by (cases "execute_cycle fsub e v")
  obtain r2 v2 where m: "manage_cycle_timing fsub e v1 = (r2, v2)"
    by (cases "manage_cycle_timing fsub e v1")
  from assms c m have "r1 = None" "r2 = None" by (simp_all add: cycle_completes_def)
  with c m show ?thesis by (simp add: loop_body_def)
qed

lemma loop_body_running_completes:
  "cycle_completes fsub e v \<Longrightarrow> running (loop_body fsub e v) = running v"
  by (simp add: loop_body_completes manage_cycle_timing_running execute_cycle_running)

lemma loop_body_observe_raises:
  assumes "observe_raises e v"
  shows "\<not> running (loop_body fsub e v)"
proof -
  obtain r c1 where u: "update (now_iso e) (cm v) = (r, c1)"
    by (cases "update (now_iso e) (cm v)")
  with assms obtain x where "r = Some x" by (auto simp add: observe_raises_def)
  with u show ?thesis by (simp add: loop_body_def execute_cycle_def)
qed

lemma loop_body_pace_raises:
  assumes "pace_raises fsub e v"
  shows "\<not> running (loop_body fsub e v)"
proof -
  obtain r1 v1 where c: "execute_cycle fsub e v = (r1, v1)" by (cases "execute_cycle fsub e v")
  obtain r2 v2 where m: "manage_cycle_timing fsub e v1 = (r2, v2)"
    by (cases "manage_cycle_timing fsub e v1")
  from assms c m obtain x where "r1 = None" "r2 = Some x" by (auto simp add: pace_raises_def)
  with c m show ?thesis by (simp add: loop_body_def)
qed

lemma execute_cycle_cycle_count:
  "cycle_count (snd (execute_cycle fsub e v)) = cycle_count v + 1"
  by (simp add: execute_cycle_def Let_def determine_next_action_def execute_action_def
      split: prod.splits option.splits sum.splits)

lemma manage_cycle_timing_cycle_count:
  "cycle_count (snd (manage_cycle_timing fsub e v)) = cycle_count v"
  by (simp add: manage_cycle_timing_def)

lemma loop_body_cycle_count: "cycle_count (loop_body fsub e v) = cycle_count v + 1"
proof -
  obtain r1 v1 where c: "execute_cycle fsub e v = (r1, v1)" by (cases "execute_cycle fsub e v")
  obtain r2 v2 where m: "manage_cycle_timing fsub e v1 = (r2, v2)"
    by (cases "manage_cycle_timing fsub e v1")
  from c have "cycle_count v1 = cycle_count v + 1"
    using execute_cycle_cycle_count [of fsub e v] by simp
  moreover from m have "cycle_count v2 = cycle_count v1"
    using manage_cycle_timing_cycle_count [of fsub e v1] by simp
  ultimately show ?thesis using c m
    by (simp add: loop_body_def split: option.splits)
qed

lemma after_cycles_cycle_count:
  "cycle_count (after_cycles fsub es v) = cycle_count v + int (length es)"
  by (induction es arbitrary: v) (simp_all add: loop_body_cycle_count)

lemma run_loop_prefix:
  "running v \<Longrightarrow> cycles_complete fsub pre v \<Longrightarrow>
   running (after_cycles fsub pre v) \<and> run_loop fsub (pre @ es) v = run_loop fsub es (after_cycles fsub pre v)"
proof (induction pre arbitrary: v)
  case Nil
  then show ?case by simp
next
  case (Cons e pre)
  from Cons.prems have "running (loop_body fsub e v)" "cycles_complete fsub pre (loop_body fsub e v)"
    by (simp_all add: loop_body_running_completes)
  from Cons.IH [OF this] Cons.prems(1) show ?case by simp
qed


lemma execute_cycle_slept: "slept (snd (execute_cycle fsub e v)) = slept v"
  by (simp add: execute_cycle_def Let_def determine_next_action_def execute_action_def
      split: prod.splits option.splits sum.splits)

lemma execute_cycle_last_cycle_time:
  "fst (execute_cycle fsub e v) = None \<Longrightarrow>
   last_cycle_time (snd (execute_cycle fsub e v)) = fsub (time_end e) (time_start e)"
  by (simp add: execute_cycle_def Let_def determine_next_action_def execute_action_def
      split: prod.splits option.splits sum.splits if_splits)

text \<open>The context after the first two steps of a pass, when the memory is a list.\<close>

lemma observe_and_drain:
  assumes "c ''short_term_memory'' = Some (PList xs)"
    and "c ''pending_inputs'' = Some inputs"
  shows "update now c =
      (None, c(''last_update'' \<mapsto> PStr now,
               ''short_term_memory'' \<mapsto> PList (drop (length xs - 100) xs)))"
    and "get_pending_inputs
        (c(''last_update'' \<mapsto> PStr now,
           ''short_term_memory'' \<mapsto> PList (drop (length xs - 100) xs))) =
      (Inr inputs, c(''last_update'' \<mapsto> PStr now,
                     ''short_term_memory'' \<mapsto> PList (drop (length xs - 100) xs),
                     ''pending_inputs'' \<mapsto> PList []))"
proof -
  show "update now c =
      (None, c(''last_update'' \<mapsto> PStr now,
               ''short_term_memory'' \<mapsto> PList (drop (length xs - 100) xs)))"
    using assms(1) by (rule update_list)
  show "get_pending_inputs
        (c(''last_update'' \<mapsto> PStr now,
           ''short_term_memory'' \<mapsto> PList (drop (length xs - 100) xs))) =
      (Inr inputs, c(''last_update'' \<mapsto> PStr now,
                     ''short_term_memory'' \<mapsto> PList (drop (length xs - 100) xs),
                     ''pending_inputs'' \<mapsto> PList []))"
    using assms(2) by (simp add: get_pending_inputs_def subscript_def)
qed

text \<open>A pass over a context with a list as memory and nothing to process.\<close>

lemma execute_cycle_idle:
  assumes "cm v ''short_term_memory'' = Some (PList xs)"
    and "cm v ''pending_inputs'' = Some inputs"
    and "\<not> truthy inputs"
  shows "execute_cycle fsub e v =
    (None, v\<lparr>cycle_count := cycle_count v + 1,
             cm := (cm v)(''last_update'' \<mapsto> PStr (now_iso e),
                          ''short_term_memory'' \<mapsto> PList (drop (length xs - 100) xs),
                          ''pending_inputs'' \<mapsto> PList []),
             last_cycle_time := fsub (time_end e) (time_start e)\<rparr>)"
  using assms(3)
  by (simp add: execute_cycle_def Let_def observe_and_drain [OF assms(1,2)]
      determine_next_action_def)

text \<open>A pass whose pending inputs cannot be processed.\<close>

lemma execute_cycle_ingest_raises:
  assumes "cm v ''short_term_memory'' = Some (PList xs)"
    and "cm v ''pending_inputs'' = Some inputs"
    and "truthy inputs"
    and "process_inputs inputs = Some x"
  shows "execute_cycle fsub e v =
    (Some x, v\<lparr>cycle_count := cycle_count v + 1,
               cm := (cm v)(''last_update'' \<mapsto> PStr (now_iso e),
                            ''short_term_memory'' \<mapsto> PList (drop (length xs - 100) xs),
                            ''pending_inputs'' \<mapsto> PList [])\<rparr>)"
  using assms(3,4)
  by (simp add: execute_cycle_def Let_def observe_and_drain [OF assms(1,2)])

lemma execute_cycle_idle_initial:
  "execute_cycle fsub e ((new_loop initial_context)\<lparr>running := True\<rparr>) =
    (None, \<lparr>running = True, cycle_count = 1,
            last_cycle_time = fsub (time_end e) (time_start e),
            cm = initial_context(''last_update'' \<mapsto> PStr (now_iso e),
                                 ''short_term_memory'' \<mapsto> PList [],
                                 ''pending_inputs'' \<mapsto> PList []),
            slept = []\<rparr>)"
proof -
  let ?v = "(new_loop initial_context)\<lparr>running := True\<rparr>"
  have m: "cm ?v ''short_term_memory'' = Some (PList [])"
    and p: "cm ?v ''pending_inputs'' = Some (PList [])"
    by (simp_all add: new_loop_def initial_context_def)
  have t: "\<not> truthy (PList [])" by simp
  show ?thesis
    unfolding execute_cycle_idle [OF m p t] by (simp add: new_loop_def)
qed

lemma execute_cycle_queued:
  "execute_cycle fsub e ((new_loop queued_context)\<lparr>running := True\<rparr>) =
    (Some (AttributeError ''list object has no attribute items''),
     \<lparr>running = True, cycle_count = 1, last_cycle_time = 0,
      cm = queued_context(''last_update'' \<mapsto> PStr (now_iso e),
                          ''short_term_memory'' \<mapsto> PList [],
                          ''pending_inputs'' \<mapsto> PList []),
      slept = []\<rparr>)"
proof -
  let ?v = "(new_loop queued_context)\<lparr>running := True\<rparr>"
  let ?inputs = "PList [PDict [(''cmd'', PStr ''go'')]]"
  have m: "cm ?v ''short_term_memory'' = Some (PList [])"
    and p: "cm ?v ''pending_inputs'' = Some ?inputs"
    by (simp_all add: new_loop_def queued_context_def initial_context_def)
  have t: "truthy ?inputs"
    and r: "process_inputs ?inputs = Some (AttributeError ''list object has no attribute items'')"
    by simp_all
  show ?thesis
    unfolding execute_cycle_ingest_raises [OF m p t r] by (simp add: new_loop_def)
qed

lemma loop_body_cycle_raises:
  assumes "cycle_raises fsub e v"
  shows "loop_body fsub e v = (snd (execute_cycle fsub e v))\<lparr>running := False\<rparr>"
proof -
  obtain r1 v1 where c: "execute_cycle fsub e v = (r1, v1)"
    by (cases "execute_cycle fsub e v")
  with assms obtain x where "r1 = Some x" by (auto simp add: cycle_raises_def)
  with c show ?thesis by (simp add: loop_body_def)
qed

text \<open>
  C5. Let a run of the loop make any number of passes that complete. If in the next pass
  the Observe step (\<^verbatim>\<open>context.update()\<close>) or the Pace step
  (\<^verbatim>\<open>_manage_cycle_timing\<close>) raises an exception, \<^verbatim>\<open>run\<close> catches it and returns: its
  result is the state that pass left, with \<open>running\<close> false, and none of the later passes
  is made (the result does not depend on \<open>rest\<close>). This holds whatever the float
  subtraction returns.
\<close>

theorem fatal_fault_stops_loop:
  assumes "cycles_complete fsub pre (v\<lparr>running := True\<rparr>)"
    and "observe_raises e (after_cycles fsub pre (v\<lparr>running := True\<rparr>))
         \<or> pace_raises fsub e (after_cycles fsub pre (v\<lparr>running := True\<rparr>))"
  shows "run fsub (pre @ e # rest) v
        = Some (loop_body fsub e (after_cycles fsub pre (v\<lparr>running := True\<rparr>)))
    \<and> \<not> running (loop_body fsub e (after_cycles fsub pre (v\<lparr>running := True\<rparr>)))
    \<and> cycle_count (loop_body fsub e (after_cycles fsub pre (v\<lparr>running := True\<rparr>)))
        = cycle_count v + int (length pre) + 1"
proof -
  let ?v0 = "v\<lparr>running := True\<rparr>"
  let ?v1 = "after_cycles fsub pre ?v0"
  have r0: "running ?v0" by simp
  from run_loop_prefix [OF r0 assms(1), of "e # rest"]
  have r1: "running ?v1"
    and eq: "run_loop fsub (pre @ e # rest) ?v0 = run_loop fsub (e # rest) ?v1"
    by simp_all
  from assms(2) have stopped: "\<not> running (loop_body fsub e ?v1)"
    using loop_body_observe_raises loop_body_pace_raises by blast
  have "run_loop fsub (e # rest) ?v1 = Some (loop_body fsub e ?v1)"
    using r1 stopped by (cases rest) simp_all
  with eq stopped show ?thesis
    by (simp add: run_def loop_body_cycle_count after_cycles_cycle_count)
qed

theorem fatal_fault_stops_loop_witness:
  "cycles_complete exact_sub [quiet_cycle] ((new_loop initial_context)\<lparr>running := True\<rparr>)
   \<and> pace_raises exact_sub interrupted_cycle
        (after_cycles exact_sub [quiet_cycle] ((new_loop initial_context)\<lparr>running := True\<rparr>))
   \<and> run exact_sub [quiet_cycle, interrupted_cycle, quiet_cycle] (new_loop initial_context)
       = Some (loop_body exact_sub interrupted_cycle
           (after_cycles exact_sub [quiet_cycle]
              ((new_loop initial_context)\<lparr>running := True\<rparr>)))
   \<and> \<not> running (loop_body exact_sub interrupted_cycle
           (after_cycles exact_sub [quiet_cycle]
              ((new_loop initial_context)\<lparr>running := True\<rparr>)))
   \<and> observe_raises quiet_cycle
        (after_cycles exact_sub [] (observe_fault_loop\<lparr>running := True\<rparr>))
   \<and> run exact_sub [quiet_cycle, quiet_cycle] observe_fault_loop
       = Some (loop_body exact_sub quiet_cycle (observe_fault_loop\<lparr>running := True\<rparr>))
   \<and> \<not> running (loop_body exact_sub quiet_cycle (observe_fault_loop\<lparr>running := True\<rparr>))"
proof -
  let ?v0 = "(new_loop initial_context)\<lparr>running := True\<rparr>"
  let ?v1 = "\<lparr>running = True, cycle_count = 1, last_cycle_time = exact_sub 10.03125 10,
              cm = initial_context(''last_update'' \<mapsto> PStr ''2026-01-01T00:00:00'',
                                   ''short_term_memory'' \<mapsto> PList [],
                                   ''pending_inputs'' \<mapsto> PList []),
              slept = [exact_sub double_tenth (exact_sub 10.03125 10)]\<rparr>"
  have less: "exact_sub 10.03125 10 < double_tenth"
    by (simp add: exact_sub_def double_tenth_def)
  have q: "cycle_completes exact_sub quiet_cycle ?v0"
    by (simp add: cycle_completes_def execute_cycle_idle_initial manage_cycle_timing_def
        quiet_cycle_def)
  then have c1: "cycles_complete exact_sub [quiet_cycle] ?v0" by simp
  have b: "loop_body exact_sub quiet_cycle ?v0 = ?v1"
    unfolding loop_body_completes [OF q] execute_cycle_idle_initial
    using less by (simp add: manage_cycle_timing_def quiet_cycle_def)
  then have a: "after_cycles exact_sub [quiet_cycle] ?v0 = ?v1" by simp
  have m: "cm ?v1 ''short_term_memory'' = Some (PList [])"
    and p: "cm ?v1 ''pending_inputs'' = Some (PList [])"
    by simp_all
  have t: "\<not> truthy (PList [])" by simp
  have less': "exact_sub 11.03125 11 < double_tenth"
    by (simp add: exact_sub_def double_tenth_def)
  have h1: "pace_raises exact_sub interrupted_cycle (after_cycles exact_sub [quiet_cycle] ?v0)"
    unfolding a pace_raises_def execute_cycle_idle [OF m p t]
    using less' by (simp add: manage_cycle_timing_def interrupted_cycle_def)
  have h2: "observe_raises quiet_cycle
      (after_cycles exact_sub [] (observe_fault_loop\<lparr>running := True\<rparr>))"
    by (simp add: observe_raises_def observe_fault_loop_def new_loop_def update_def
        update_environment_data_def prune_short_term_memory_def subscript_def)
  have c2: "cycles_complete exact_sub [] (observe_fault_loop\<lparr>running := True\<rparr>)" by simp
  from fatal_fault_stops_loop
    [of exact_sub "[quiet_cycle]" "new_loop initial_context" interrupted_cycle "[quiet_cycle]",
     OF c1 disjI2 [OF h1]]
  have r1: "run exact_sub [quiet_cycle, interrupted_cycle, quiet_cycle]
        (new_loop initial_context)
       = Some (loop_body exact_sub interrupted_cycle
           (after_cycles exact_sub [quiet_cycle] ?v0))"
    and s1: "\<not> running (loop_body exact_sub interrupted_cycle
           (after_cycles exact_sub [quiet_cycle] ?v0))"
    by simp_all
  from fatal_fault_stops_loop
    [of exact_sub "[]" observe_fault_loop quiet_cycle "[quiet_cycle]", OF c2 disjI1 [OF h2]]
  have r2: "run exact_sub [quiet_cycle, quiet_cycle] observe_fault_loop
       = Some (loop_body exact_sub quiet_cycle (observe_fault_loop\<lparr>running := True\<rparr>))"
    and s2: "\<not> running (loop_body exact_sub quiet_cycle
        (observe_fault_loop\<lparr>running := True\<rparr>))"
    by simp_all
  from c1 h1 r1 s1 h2 r2 s2 show ?thesis by blast
qed

text \<open>
  C6 (as amended). The loop makes no dispatch and keeps no error counter:
  \<^verbatim>\<open>_determine_next_action\<close> always returns \<^verbatim>\<open>None\<close> and \<^verbatim>\<open>_execute_action\<close> changes
  no field of the loop. An error is not recoverable: every exception raised inside
  \<^verbatim>\<open>_execute_cycle\<close> (steps 1 to 4) is caught by the one \<^verbatim>\<open>try\<close> of \<^verbatim>\<open>run\<close>, which
  sets \<open>running\<close> to false, so that \<^verbatim>\<open>run\<close> returns after that pass. Only a pass in
  which nothing raises leaves \<open>running\<close> true and is followed by the next pass.
\<close>

theorem error_in_cycle_stops_loop:
  "determine_next_action v = PNone
   \<and> execute_action action v = v
   \<and> (running v \<longrightarrow> cycle_raises fsub e v \<longrightarrow>
        \<not> running (loop_body fsub e v)
        \<and> cycle_count (loop_body fsub e v) = cycle_count v + 1
        \<and> run_loop fsub (e # es) v = Some (loop_body fsub e v))
   \<and> (running v \<longrightarrow> cycle_completes fsub e v \<longrightarrow>
        running (loop_body fsub e v)
        \<and> cycle_count (loop_body fsub e v) = cycle_count v + 1
        \<and> run_loop fsub (e # es) v = run_loop fsub es (loop_body fsub e v))"
proof (intro conjI impI)
  show "determine_next_action v = PNone" by (simp add: determine_next_action_def)
  show "execute_action action v = v" by (simp add: execute_action_def)
next
  assume r: "running v" and f: "cycle_raises fsub e v"
  from f show stopped: "\<not> running (loop_body fsub e v)"
    by (simp add: loop_body_cycle_raises)
  show "cycle_count (loop_body fsub e v) = cycle_count v + 1"
    by (rule loop_body_cycle_count)
  from r stopped show "run_loop fsub (e # es) v = Some (loop_body fsub e v)"
    by (cases es) simp_all
next
  assume r: "running v" and c: "cycle_completes fsub e v"
  from r c show "running (loop_body fsub e v)"
    by (simp add: loop_body_running_completes)
  show "cycle_count (loop_body fsub e v) = cycle_count v + 1"
    by (rule loop_body_cycle_count)
  from r show "run_loop fsub (e # es) v = run_loop fsub es (loop_body fsub e v)"
    by simp
qed

theorem error_in_cycle_stops_loop_witness:
  "running ((new_loop queued_context)\<lparr>running := True\<rparr>)
   \<and> cycle_raises exact_sub quiet_cycle ((new_loop queued_context)\<lparr>running := True\<rparr>)
   \<and> \<not> running (loop_body exact_sub quiet_cycle
          ((new_loop queued_context)\<lparr>running := True\<rparr>))
   \<and> run_loop exact_sub [quiet_cycle, quiet_cycle]
        ((new_loop queued_context)\<lparr>running := True\<rparr>)
       = Some (loop_body exact_sub quiet_cycle ((new_loop queued_context)\<lparr>running := True\<rparr>))
   \<and> cycle_completes exact_sub quiet_cycle ((new_loop initial_context)\<lparr>running := True\<rparr>)
   \<and> running (loop_body exact_sub quiet_cycle
        ((new_loop initial_context)\<lparr>running := True\<rparr>))"
proof -
  let ?q = "(new_loop queued_context)\<lparr>running := True\<rparr>"
  let ?i = "(new_loop initial_context)\<lparr>running := True\<rparr>"
  have rq: "running ?q" and ri: "running ?i" by simp_all
  have f: "cycle_raises exact_sub quiet_cycle ?q"
    by (simp add: cycle_raises_def execute_cycle_queued)
  have c: "cycle_completes exact_sub quiet_cycle ?i"
    by (simp add: cycle_completes_def execute_cycle_idle_initial manage_cycle_timing_def
        quiet_cycle_def)
  note tq = error_in_cycle_stops_loop [of ?q PNone exact_sub quiet_cycle "[quiet_cycle]"]
  note ti = error_in_cycle_stops_loop [of ?i PNone exact_sub quiet_cycle "[quiet_cycle]"]
  from tq rq f have 1: "\<not> running (loop_body exact_sub quiet_cycle ?q)"
    and 2: "run_loop exact_sub [quiet_cycle, quiet_cycle] ?q
        = Some (loop_body exact_sub quiet_cycle ?q)"
    by blast+
  from ti ri c have 3: "running (loop_body exact_sub quiet_cycle ?i)" by blast
  from rq f 1 2 c 3 show ?thesis by blast
qed

text \<open>
  C6 as stated fails: an error in steps 2 to 4 is not recoverable. With one input
  queued, the Ingest step of the first pass raises (the list of inputs has no
  \<^verbatim>\<open>items\<close>); \<^verbatim>\<open>run\<close> catches the exception, sets \<open>running\<close> to false and returns
  after that one pass. The second pass is not made, and the state \<^verbatim>\<open>run\<close> leaves has no
  field that counts the error.
\<close>

theorem queued_input_stops_loop:
  "run exact_sub [quiet_cycle, quiet_cycle] (new_loop queued_context) =
     Some \<lparr>running = False, cycle_count = 1, last_cycle_time = 0,
           cm = queued_context(''last_update'' \<mapsto> PStr ''2026-01-01T00:00:00'',
                               ''short_term_memory'' \<mapsto> PList [],
                               ''pending_inputs'' \<mapsto> PList []),
           slept = []\<rparr>"
  by (simp add: run_def loop_body_def execute_cycle_queued quiet_cycle_def)

text \<open>
  What the Pace step does when \<^verbatim>\<open>_execute_cycle\<close> has returned: the time measured is
  the float difference of the two clock readings; below the double \<^verbatim>\<open>0.1\<close> there is one
  call of \<^verbatim>\<open>time.sleep\<close>, with the float difference of \<^verbatim>\<open>0.1\<close> and that time; otherwise
  there is none.
\<close>

lemma manage_cycle_timing_sleep_call:
  assumes "fst (execute_cycle fsub e v) = None"
  shows "slept (snd (manage_cycle_timing fsub e (snd (execute_cycle fsub e v)))) =
      (if fsub (time_end e) (time_start e) < double_tenth
       then slept v @ [fsub double_tenth (fsub (time_end e) (time_start e))]
       else slept v)"
  using execute_cycle_last_cycle_time [OF assms] execute_cycle_slept [of fsub e v]
  by (simp add: manage_cycle_timing_def)



section \<open>Persistence\<close>

lemma foldl_upd_map_add:
  "foldl (\<lambda>m kv. m(fst kv \<mapsto> snd kv)) c kvs = c ++ map_of (rev kvs)"
proof (induction kvs arbitrary: c)
  case Nil
  show ?case by simp
next
  case (Cons kv kvs)
  have step: "c(fst kv \<mapsto> snd kv) ++ map_of (rev kvs) = c ++ map_of (rev (kv # kvs))"
    by (cases kv) (simp add: map_add_def fun_eq_iff split: option.splits)
  show ?case by (simp only: foldl_Cons Cons.IH step)
qed

lemma update_from_seq_dom: "dom c \<subseteq> dom (snd (update_from_seq c items))"
proof (induction items arbitrary: c)
  case Nil
  show ?case by simp
next
  case (Cons item rest)
  have grow: "dom c \<subseteq> dom (snd (update_from_seq (c(s \<mapsto> v)) rest))" for s v
  proof -
    have "dom c \<subseteq> dom (c(s \<mapsto> v))" by (simp add: subset_insertI)
    then show ?thesis using Cons.IH by (rule subset_trans)
  qed
  show ?case
    using grow Cons.IH [of c]
    by (simp split: sum.splits prod.splits pyval.splits)
qed

lemma dict_update_dom: "dom c \<subseteq> dom (snd (dict_update c saved))"
  by (cases saved) (auto simp add: update_from_seq_dom foldl_upd_map_add)

lemma load_initial_state_try_dom: "dom c \<subseteq> dom (snd (load_initial_state_try io c))"
  using dict_update_dom
  by (simp add: load_initial_state_try_def split: sum.splits bool.splits)

lemma load_initial_state_dom: "dom c \<subseteq> dom (snd (load_initial_state io c))"
proof (cases "load_initial_state_try io c")
  case (Pair r c')
  with load_initial_state_try_dom [of c io] have "dom c \<subseteq> dom c'" by simp
  with Pair show ?thesis
    by (cases r) (simp_all add: load_initial_state_def)
qed

lemma load_initial_state_merges:
  assumes "exists_result io = Inr True" and "load_result io = Inr (PDict kvs)"
  shows "snd (load_initial_state io c) = c ++ map_of (rev kvs)"
  using assms
  by (simp add: load_initial_state_def load_initial_state_try_def foldl_upd_map_add)


text \<open>
  C8. No exception leaves \<^verbatim>\<open>load_initial_state\<close> or \<^verbatim>\<open>save_state\<close>, whatever the file
  system answers; \<^verbatim>\<open>save_state\<close> leaves the context as it was. Loading never removes a
  key of the context; without a file the context is unchanged; and when the file holds a
  JSON object, every key the object omits keeps the value it had (its default, on the
  context of \<^verbatim>\<open>__init__\<close>) while every key it gives takes the loaded value.
\<close>

theorem persistence_never_raises:
  "fst (load_initial_state io c) = None
   \<and> save_state sio c = (None, c)
   \<and> dom c \<subseteq> dom (snd (load_initial_state io c))
   \<and> (exists_result io = Inr False \<longrightarrow> snd (load_initial_state io c) = c)
   \<and> (exists_result io = Inr True \<longrightarrow> load_result io = Inr (PDict kvs) \<longrightarrow>
        (\<forall>k. k \<notin> fst ` set kvs \<longrightarrow> snd (load_initial_state io c) k = c k)
        \<and> (\<forall>k v. map_of (rev kvs) k = Some v \<longrightarrow> snd (load_initial_state io c) k = Some v))"
proof (intro conjI impI allI)
  show "fst (load_initial_state io c) = None"
    by (simp add: load_initial_state_def split: prod.splits option.splits)
  show "save_state sio c = (None, c)"
    by (simp add: save_state_def save_state_try_def split: prod.splits option.splits)
  show "dom c \<subseteq> dom (snd (load_initial_state io c))"
    by (rule load_initial_state_dom)
  show "snd (load_initial_state io c) = c" if "exists_result io = Inr False"
    using that by (simp add: load_initial_state_def load_initial_state_try_def)
next
  fix k
  assume a: "exists_result io = Inr True" "load_result io = Inr (PDict kvs)"
    and k: "k \<notin> fst ` set kvs"
  from k have "map_of (rev kvs) k = None"
    by (simp add: map_of_eq_None_iff)
  then show "snd (load_initial_state io c) k = c k"
    by (simp add: load_initial_state_merges [OF a] map_add_def)
next
  fix k v
  assume a: "exists_result io = Inr True" "load_result io = Inr (PDict kvs)"
    and k: "map_of (rev kvs) k = Some v"
  then show "snd (load_initial_state io c) k = Some v"
    by (simp add: load_initial_state_merges [OF a] map_add_def)
qed

theorem persistence_never_raises_witness:
  "exists_result saved_blob = Inr True
   \<and> load_result saved_blob = Inr (PDict [(''system_state'', PStr ''ready'')])
   \<and> fst (load_initial_state saved_blob initial_context) = None
   \<and> snd (load_initial_state saved_blob initial_context) ''short_term_memory''
       = Some (PList [])
   \<and> snd (load_initial_state saved_blob initial_context) ''system_state''
       = Some (PStr ''ready'')
   \<and> save_state full_disk initial_context = (None, initial_context)"
proof -
  have e: "exists_result saved_blob = Inr True"
    and l: "load_result saved_blob = Inr (PDict [(''system_state'', PStr ''ready'')])"
    by (simp_all add: saved_blob_def)
  note t = persistence_never_raises
    [of saved_blob initial_context full_disk "[(''system_state'', PStr ''ready'')]"]
  from t have 1: "fst (load_initial_state saved_blob initial_context) = None" by blast
  from t have 2: "save_state full_disk initial_context = (None, initial_context)" by blast
  from t e l have omitted: "\<forall>k. k \<notin> fst ` set [(''system_state'', PStr ''ready'')] \<longrightarrow>
      snd (load_initial_state saved_blob initial_context) k = initial_context k"
    by blast
  from t e l have given: "\<forall>k v. map_of (rev [(''system_state'', PStr ''ready'')]) k = Some v \<longrightarrow>
      snd (load_initial_state saved_blob initial_context) k = Some v"
    by blast
  from omitted have 3: "snd (load_initial_state saved_blob initial_context)
      ''short_term_memory'' = Some (PList [])"
    by (simp add: initial_context_def)
  from given have 4: "snd (load_initial_state saved_blob initial_context) ''system_state''
      = Some (PStr ''ready'')"
    by simp
  from e l 1 2 3 4 show ?thesis by blast
qed


section \<open>Operations no dispatcher knows\<close>

text \<open>
  C9. In \<^verbatim>\<open>WebScraper.execute\<close>, \<^verbatim>\<open>ConfigLoader.execute\<close> and
  \<^verbatim>\<open>SelfOptimizer.execute\<close>, an operation that is none of the names the method compares
  with makes the method end without a \<^verbatim>\<open>return\<close>: the result is \<^verbatim>\<open>None\<close>, not an
  error dictionary, and no exception is raised.
\<close>

theorem unknown_operation_returns_None:
  "(operation \<notin> {''fetch_page'', ''extract_text'', ''extract_links''} \<longrightarrow>
      WebScraper_execute sio operation params = PNone)
   \<and> (operation \<notin> {''load'', ''save'', ''list'', ''validate''} \<longrightarrow>
        ConfigLoader_execute ms operation params = PNone)
   \<and> (operation \<notin> {''optimize'', ''analyze_performance'', ''suggest_improvements''} \<longrightarrow>
        SelfOptimizer_execute h operation params history = (PNone, history))"
  by (simp add: WebScraper_execute_def WebScraper_try_def ConfigLoader_execute_def
      ConfigLoader_try_def SelfOptimizer_execute_def SelfOptimizer_try_def)

theorem unknown_operation_returns_None_witness:
  "WebScraper_execute offline_scraper_io ''screenshot'' Map.empty = PNone
   \<and> ConfigLoader_execute empty_config_methods ''screenshot'' Map.empty = PNone
   \<and> SelfOptimizer_execute undefined_helpers ''screenshot'' Map.empty [] = (PNone, [])
   \<and> PNone \<noteq> error_result ''unknown operation''"
proof -
  note t = unknown_operation_returns_None
    [of "''screenshot''" offline_scraper_io Map.empty empty_config_methods undefined_helpers "[]"]
  from t have 1: "WebScraper_execute offline_scraper_io ''screenshot'' Map.empty = PNone"
    by simp
  from t have 2: "ConfigLoader_execute empty_config_methods ''screenshot'' Map.empty = PNone"
    by simp
  from t have 3: "SelfOptimizer_execute undefined_helpers ''screenshot'' Map.empty []
      = (PNone, [])"
    by simp
  from 1 2 3 show ?thesis by (simp add: error_result_def)
qed


section \<open>What update leaves alone\<close>

lemma prune_short_term_memory_frame:
  "k \<noteq> ''short_term_memory'' \<Longrightarrow> snd (prune_short_term_memory c) k = c k"
  by (simp add: prune_short_term_memory_def split: sum.splits)


text \<open>
  C10. \<^verbatim>\<open>update\<close> changes no key of the context other than \<^verbatim>\<open>last_update\<close> and
  \<^verbatim>\<open>short_term_memory\<close>: \<^verbatim>\<open>active_tasks\<close>, \<^verbatim>\<open>pending_inputs\<close>,
  \<^verbatim>\<open>environment_data\<close> and \<^verbatim>\<open>system_state\<close> keep their values, also when the pruning
  raises; \<^verbatim>\<open>_update_environment_data\<close> changes nothing.
\<close>

theorem update_frame:
  "update_environment_data c = c
   \<and> (\<forall>k. k \<noteq> ''last_update'' \<longrightarrow> k \<noteq> ''short_term_memory'' \<longrightarrow>
          snd (update now c) k = c k)
   \<and> snd (update now c) ''active_tasks'' = c ''active_tasks''
   \<and> snd (update now c) ''pending_inputs'' = c ''pending_inputs''
   \<and> snd (update now c) ''environment_data'' = c ''environment_data''
   \<and> snd (update now c) ''system_state'' = c ''system_state''"
  by (simp add: update_def update_environment_data_def prune_short_term_memory_frame)

theorem update_frame_witness:
  "snd (update ''2026-01-01T00:00:00'' initial_context) ''system_state''
     = Some (PStr ''initializing'')
   \<and> snd (update ''2026-01-01T00:00:00'' initial_context) ''pending_inputs'' = Some (PList [])
   \<and> snd (update ''2026-01-01T00:00:00'' initial_context) ''last_update''
     = Some (PStr ''2026-01-01T00:00:00'')"
proof -
  have "snd (update ''2026-01-01T00:00:00'' initial_context) ''last_update''
     = Some (PStr ''2026-01-01T00:00:00'')"
    by (simp add: update_def update_environment_data_def prune_short_term_memory_def
        subscript_def initial_context_def max_items_def)
  then show ?thesis
    using update_frame [of initial_context "''2026-01-01T00:00:00''"]
    by (simp add: initial_context_def)
qed

end
